theory Spec2Isabelle
  imports Complex_Main "HOL-Library.AList"
begin

section \<open>The ChatGPT session class of gpt-chat, embedded in HOL\<close>

text \<open>
  The development follows the class \<open>ChatGPT\<close>: the model catalog \<open>this.models\<close>, the
  private configuration \<open>this.#conf\<close>, the history of turns and the running summary.
  Methods become functions that take the parts of the object they read and return the
  parts they write. A \<open>throw\<close> is the \<open>Inl\<close> of a sum. The two external collaborators, the
  tokenizer \<open>encode\<close> of gpt-3-encoder and the OpenAI connection \<open>this.conn\<close>, are
  parameters.
\<close>

subsection \<open>JavaScript values\<close>

text \<open>
  The values that the configuration objects and the argument of \<open>#countTokens\<close> hold.
  A number is a rational (the literals \<open>0.1\<close> and \<open>0.6\<close> of \<open>#conf\<close> are the fractions
  they denote) or \<open>NaN\<close>; objects as property values and the infinities are left out.
  Numbers are stored, copied and compared as they are. The one sum that the code forms
  is followed only where doubles do not round it.
  A string is the list of its code units, taken below \<open>256\<close>, and its \<open>length\<close> their
  number.
\<close>

datatype jsval =
    JUndefined
  | JNull
  | JBool bool
  | JNum rat
  | JNaN
  | JStr string
  | JArr "jsval list"

type_synonym jsobj = "(string \<times> jsval) list"

text \<open>
  An object is the list of its own properties in insertion order. \<open>obj[k] = v\<close>
  is \<^const>\<open>AList.update\<close> (an existing key keeps its place, a new one goes last),
  \<open>delete obj[k]\<close> is \<^const>\<open>AList.delete\<close>, \<open>obj.hasOwnProperty(k)\<close> asks whether
  \<^const>\<open>map_of\<close> is defined, and \<open>Object.assign(target, source)\<close> assigns the
  properties of the source from left to right.
\<close>

definition hasOwnProperty :: "jsobj \<Rightarrow> string \<Rightarrow> bool" where
  "hasOwnProperty obj k = (map_of obj k \<noteq> None)"

definition get_prop :: "jsobj \<Rightarrow> string \<Rightarrow> jsval" where
  "get_prop obj k = (case map_of obj k of None \<Rightarrow> JUndefined | Some v \<Rightarrow> v)"

definition object_assign :: "jsobj \<Rightarrow> jsobj \<Rightarrow> jsobj" where
  "object_assign target source = fold (\<lambda>kv. AList.update (fst kv) (snd kv)) source target"

fun truthy :: "jsval \<Rightarrow> bool" where
  "truthy JUndefined = False"
| "truthy JNull = False"
| "truthy (JBool b) = b"
| "truthy (JNum r) = (r \<noteq> 0)"
| "truthy JNaN = False"
| "truthy (JStr s) = (s \<noteq> [])"
| "truthy (JArr xs) = True"

subsection \<open>Errors\<close>

text \<open>
  The source throws \<open>Error\<close> and \<open>TypeError\<close> objects that differ in their message only.
  Each throw site gets a constructor, named after the error taxonomy where it has a name
  for it:
  \<^item> \<open>InvalidInput\<close>: the \<open>TypeError\<close>s "Expected a string", "Expected a non-empty string",
    "Expected a string model name" and the \<open>Error\<close> "Got an empty string";
  \<^item> \<open>UnknownModel\<close>: the two \<open>Error\<close>s of \<open>createBody\<close> for a name that is not in
    \<open>this.models\<close>;
  \<^item> \<open>PromptTooLarge\<close>: "The query is too big for the model";
  \<^item> \<open>AccountingError\<close>: "Something went wrong while counting the token history";
  \<^item> \<open>BackendError\<close>: "The OpenAI API call returned a ...";
  \<^item> \<open>RequestFailed e\<close>: "Error making the OpenAI API request", with its cause \<open>e\<close>;
  \<^item> \<open>ResponseParseError\<close>: "Problems parsing the response from openai";
  \<^item> \<open>RuntimeTypeError\<close>: a \<open>TypeError\<close> raised by the language itself (a property read
    on \<open>null\<close> or \<open>undefined\<close>, a call or an iteration of \<open>undefined\<close>);
  \<^item> \<open>ConnError\<close>: whatever else the connection throws.

  \<open>Unmodelled\<close> is no error of the program. It marks the computations that the
  embedding does not follow:
  \<^item> in \<open>#adjustMaxExpectedResponseTokens\<close>, the sum of the token count and a
    \<open>max_tokens\<close> that is a string or an array (a string concatenation), or a number
    with which the sum of doubles can round (one with a fractional part, or beyond
    \<open>2\<^sup>5\<^sup>2\<close>);
  \<^item> in \<open>#getModelName\<close>, the conversion to a property key of a \<open>tempConf.model\<close> that
    is truthy and not a string;
  \<^item> in \<open>configure\<close>, the comparison of a \<open>max_tokens\<close> that is a string or an array
    with \<open>-Infinity\<close>, which arises for the empty catalog only.
\<close>

datatype error =
    InvalidInput
  | UnknownModel
  | PromptTooLarge
  | AccountingError
  | BackendError
  | RequestFailed error
  | ResponseParseError
  | RuntimeTypeError
  | ConnError
  | Unmodelled

subsection \<open>The model catalog\<close>

text \<open>
  An entry of \<open>this.models\<close>, with \<open>api_method\<close> for its property \<open>method\<close>. \<open>usage\<close>,
  \<open>params\<close> and \<open>method\<close> are absent from some
  entries (\<open>None\<close>), and \<open>name\<close>, which \<open>#getModelName\<close> reads, from all of them: a model's
  name is its key in the catalog. The three function-valued fields \<open>extractContent\<close>,
  \<open>extractResponse\<close> and \<open>getFinishReason\<close> come in two versions only, one for the chat
  endpoint and one for the completion endpoint, and an entry has all three or none: the
  field \<open>adapter\<close> says which.
\<close>

datatype adapter = ChatAdapter | CompletionAdapter

record model_entry =
  family :: string
  token_limit :: int
  usage :: "string option"
  params :: "string list option"
  api_method :: "string option"
  adapter :: "adapter option"
  name :: "string option"

type_synonym catalog = "(string \<times> model_entry) list"

definition chat_params :: "string list" where
  "chat_params = [''frequency_penalty'', ''presence_penalty'', ''max_tokens'', ''stop'',
     ''stream'', ''n'', ''top_p'', ''temperature'', ''logit_bias'', ''user'']"

definition completion_params :: "string list" where
  "completion_params = [''suffix'', ''frequency_penalty'', ''presence_penalty'',
     ''max_tokens'', ''stop'', ''stream'', ''n'', ''top_p'', ''temperature'', ''logit_bias'',
     ''logprobs'', ''echo'', ''best_of'', ''user'']"

definition models :: catalog where
  "models =
    [(''gpt-4'', \<lparr>family = ''GPT-4'', token_limit = 4096, usage = None,
        params = Some chat_params, api_method = Some ''createChatCompletion'',
        adapter = Some ChatAdapter, name = None\<rparr>),
     (''gpt-3.5-turbo'', \<lparr>family = ''GPT-3.5'', token_limit = 4096, usage = Some ''chat'',
        params = Some chat_params, api_method = Some ''createChatCompletion'',
        adapter = Some ChatAdapter, name = None\<rparr>),
     (''text-davinci-003'', \<lparr>family = ''GPT-3.5'', token_limit = 4096, usage = Some ''query'',
        params = Some completion_params, api_method = Some ''createCompletion'',
        adapter = Some CompletionAdapter, name = None\<rparr>),
     (''davinci'', \<lparr>family = ''GPT-3'', token_limit = 2048, usage = Some ''fine-tune'',
        params = None, api_method = None, adapter = None, name = None\<rparr>),
     (''curie'', \<lparr>family = ''GPT-3'', token_limit = 2048, usage = Some ''fine-tune'',
        params = None, api_method = None, adapter = None, name = None\<rparr>)]"

text \<open>
  \<open>Math.max(...Object.values(this.models).map(m => m.token_limit))\<close>; of no argument
  it is \<open>-Infinity\<close>, here \<open>None\<close>, which every number exceeds.
\<close>

fun max_token_limit :: "catalog \<Rightarrow> int option" where
  "max_token_limit [] = None"
| "max_token_limit (m # ms) =
     (case max_token_limit ms of
        None \<Rightarrow> Some (token_limit (snd m))
      | Some l \<Rightarrow> Some (max (token_limit (snd m)) l))"

definition exceeds_max_token_limit :: "catalog \<Rightarrow> int \<Rightarrow> bool" where
  "exceeds_max_token_limit ms tokens =
     (case max_token_limit ms of None \<Rightarrow> True | Some l \<Rightarrow> tokens > l)"

subsection \<open>Counting tokens\<close>

text \<open>
  The tokenizer \<open>encode\<close> returns the list of token ids of a string, or throws (\<open>None\<close>).

  \<open>#countTokens\<close> runs in a \<open>try\<close> whose \<open>catch\<close> answers \<open>Math.floor(str.length / 4)\<close>
  for every exception, the \<open>TypeError\<close> for a non-string argument among them.
  \<open>countTokens_catch\<close> is that \<open>catch\<close> block: \<open>str.length\<close> is the length of a string
  or an array, throws on \<open>null\<close> and \<open>undefined\<close>, and is \<open>undefined\<close> on a boolean or a
  number, where the division gives \<open>NaN\<close>.
\<close>

type_synonym encoder = "string \<Rightarrow> nat list option"

fun countTokens_catch :: "jsval \<Rightarrow> error + jsval" where
  "countTokens_catch (JStr s) = Inr (JNum (of_nat (length s div 4)))"
| "countTokens_catch (JArr xs) = Inr (JNum (of_nat (length xs div 4)))"
| "countTokens_catch JNull = Inl RuntimeTypeError"
| "countTokens_catch JUndefined = Inl RuntimeTypeError"
| "countTokens_catch (JBool b) = Inr JNaN"
| "countTokens_catch (JNum r) = Inr JNaN"
| "countTokens_catch JNaN = Inr JNaN"

text \<open>
  On a string the result is always a natural number: the tokenizer's count when it is
  positive and at most the largest \<open>token_limit\<close>, a quarter of the length (rounded down)
  otherwise. \<open>countTokens_str\<close> is \<open>#countTokens\<close> on strings, \<open>countTokens\<close> on any value.
\<close>

definition countTokens_str :: "catalog \<Rightarrow> encoder \<Rightarrow> string \<Rightarrow> int" where
  "countTokens_str ms encode str =
     (case encode str of
        None \<Rightarrow> int (length str div 4)
      | Some toks \<Rightarrow>
          (let tokens = int (length toks) in
           if tokens = 0 \<or> exceeds_max_token_limit ms tokens
           then int (length str div 4)
           else tokens))"

definition countTokens :: "catalog \<Rightarrow> encoder \<Rightarrow> jsval \<Rightarrow> error + jsval" where
  "countTokens ms encode v =
     (case v of
        JStr str \<Rightarrow> Inr (JNum (of_int (countTokens_str ms encode str)))
      | _ \<Rightarrow> countTokens_catch v)"

text \<open>A tokenizer that always throws, and one that gives every character its own token.\<close>

definition failing_encode :: encoder where
  "failing_encode s = None"

definition char_encode :: encoder where
  "char_encode s = Some (map of_char s)"

subsection \<open>Selecting a model\<close>

text \<open>
  \<open>name in this.models\<close>: the operator \<open>in\<close> finds the keys of the catalog and, the
  catalog being a plain object, the properties of \<open>Object.prototype\<close>.
\<close>

definition object_prototype_keys :: "string list" where
  "object_prototype_keys =
     [''constructor'', ''__defineGetter__'', ''__defineSetter__'', ''hasOwnProperty'',
      ''__lookupGetter__'', ''__lookupSetter__'', ''isPrototypeOf'', ''propertyIsEnumerable'',
      ''toString'', ''valueOf'', ''__proto__'', ''toLocaleString'']"

definition in_models :: "string \<Rightarrow> catalog \<Rightarrow> bool" where
  "in_models m ms = (m \<in> set (map fst ms) \<or> m \<in> set object_prototype_keys)"

text \<open>
  \<open>tempConf.model\<close>, where \<open>tempConf\<close> is an object and the property is truthy:
  \<open>Inr None\<close> when there is no such candidate (\<open>undefined\<close> for \<open>tempConf\<close> is \<open>None\<close>),
  \<open>Inr (Some m)\<close> for the string \<open>m\<close>. A truthy candidate of another type would be
  converted to a property key by \<open>in\<close>; that is not followed.
\<close>

definition conf_model :: "jsobj option \<Rightarrow> error + string option" where
  "conf_model tempConf =
     (case tempConf of
        None \<Rightarrow> Inr None
      | Some tc \<Rightarrow>
          (if \<not> truthy (get_prop tc ''model'') then Inr None
           else case get_prop tc ''model'' of
                  JStr m \<Rightarrow> Inr (Some m)
                | _ \<Rightarrow> Inl Unmodelled))"

text \<open>
  \<open>this.models[Object.keys(this.models)[0]].name\<close>: the property \<open>name\<close> of the first
  entry, \<open>undefined\<close> (\<open>None\<close>) when the entry has none, a \<open>TypeError\<close> when the catalog
  is empty.
\<close>

definition firstModelListed :: "catalog \<Rightarrow> error + string option" where
  "firstModelListed ms =
     (case ms of [] \<Rightarrow> Inl RuntimeTypeError | m # _ \<Rightarrow> Inr (name (snd m)))"

text \<open>
  \<open>#getModelName(tempConf, usage)\<close>. The result is a model name or \<open>undefined\<close>
  (\<open>Inr None\<close>). \<open>find\<close> returns the first key whose entry has the usage; the test
  \<open>if (defaultForUsage)\<close> fails for the empty key.
\<close>

definition defaultForUsage :: "catalog \<Rightarrow> string \<Rightarrow> string option" where
  "defaultForUsage ms u = map_option fst (find (\<lambda>kv. usage (snd kv) = Some u) ms)"

definition getModelName :: "catalog \<Rightarrow> jsobj option \<Rightarrow> string \<Rightarrow> error + string option" where
  "getModelName ms tempConf u =
     (let by_usage =
        (case defaultForUsage ms u of
           Some m \<Rightarrow> if m \<noteq> [] then Inr (Some m) else firstModelListed ms
         | None \<Rightarrow> firstModelListed ms)
      in case conf_model tempConf of
           Inl e \<Rightarrow> Inl e
         | Inr (Some m) \<Rightarrow> if in_models m ms then Inr (Some m) else by_usage
         | Inr None \<Rightarrow> by_usage)"

subsection \<open>The configuration\<close>

text \<open>The initial value of \<open>this.#conf\<close>, for the default names.\<close>

definition initial_conf :: jsobj where
  "initial_conf =
    [(''max_tokens'', JNum 1024),
     (''top_p'', JNum 1),
     (''temperature'', JNum 1),
     (''frequency_penalty'', JNum (1 / 10)),
     (''presence_penalty'', JNum (6 / 10)),
     (''stop'', JArr [JStr '' Human:'', JStr '' AI:'']),
     (''stream'', JBool False),
     (''n'', JNum 1),
     (''logit_bias'', JNull),
     (''logprobs'', JNull),
     (''echo'', JBool False),
     (''best_of'', JNum 1),
     (''suffix'', JNull)]"

text \<open>
  \<open>JSON.parse(JSON.stringify(obj))\<close>: a property that holds \<open>undefined\<close> is dropped,
  \<open>NaN\<close> becomes \<open>null\<close>, and so does \<open>undefined\<close> inside an array.
\<close>

fun json_value :: "jsval \<Rightarrow> jsval" where
  "json_value JUndefined = JNull"
| "json_value JNaN = JNull"
| "json_value (JArr xs) = JArr (map json_value xs)"
| "json_value v = v"

definition json_copy :: "jsobj \<Rightarrow> jsobj" where
  "json_copy obj = map (\<lambda>kv. (fst kv, json_value (snd kv))) (filter (\<lambda>kv. snd kv \<noteq> JUndefined) obj)"

text \<open>
  \<open>conf.max_tokens > lim\<close> in \<open>configure\<close>, for a truthy \<open>max_tokens\<close>. The limit \<open>lim\<close> is
  the maximum of \<open>m.max\<close> over the catalog. No entry has a property \<open>max\<close>, so for a
  catalog with an entry \<open>lim\<close> is \<open>NaN\<close> and the comparison is false. For the empty
  catalog \<open>lim\<close> is \<open>-Infinity\<close>, which every number and \<open>true\<close> exceed; a string or an array
  would be converted to a number first, which is not followed (\<open>None\<close>).
\<close>

definition exceeds_lim :: "catalog \<Rightarrow> jsval \<Rightarrow> bool option" where
  "exceeds_lim ms v =
     (if ms \<noteq> [] then Some False
      else case v of
             JNum r \<Rightarrow> Some True
           | JBool b \<Rightarrow> Some True
           | JNull \<Rightarrow> Some True
           | JUndefined \<Rightarrow> Some False
           | JNaN \<Rightarrow> Some False
           | JStr str \<Rightarrow> None
           | JArr xs \<Rightarrow> None)"

text \<open>
  \<open>configure(conf)\<close> on \<open>this.#conf\<close>: the result is the copy of the old configuration
  and the new configuration. A truthy \<open>max_tokens\<close> is set unless it exceeds the limit,
  and deleted from the copy of the argument either way; the rest is assigned unchecked.
\<close>

definition configure :: "catalog \<Rightarrow> jsobj \<Rightarrow> jsobj \<Rightarrow> error + jsobj \<times> jsobj" where
  "configure ms this_conf arg =
     (let c = object_assign [] arg;
          oldConf = json_copy this_conf;
          mt = get_prop c ''max_tokens''
      in if truthy mt then
           (case exceeds_lim ms mt of
              None \<Rightarrow> Inl Unmodelled
            | Some over \<Rightarrow>
                Inr (oldConf,
                     object_assign
                       (if over then this_conf else AList.update ''max_tokens'' mt this_conf)
                       (AList.delete ''max_tokens'' c)))
         else Inr (oldConf, object_assign this_conf c))"

subsection \<open>Request bodies\<close>

text \<open>
  A message as \<open>#formatMessage\<close> makes it: the object \<open>{role, content}\<close> for the chat
  format, a line of text otherwise.
\<close>

datatype role = System | User | Assistant

datatype formatted = ChatMessage role string | Line string

text \<open>
  The request body: the properties that \<open>createBody\<close> writes (\<open>model\<close> and the accepted
  parameters), \<open>messages\<close> as \<open>chat\<close> sets it and \<open>prompt\<close> as \<open>query\<close> sets it.
\<close>

record body =
  props :: jsobj
  messages :: "formatted list option"
  prompt :: "string option"

text \<open>The loop of \<open>createBody\<close> over the parameters that the model accepts.\<close>

fun copy_params :: "jsobj \<Rightarrow> string list \<Rightarrow> jsobj \<Rightarrow> jsobj" where
  "copy_params this_conf [] b = b"
| "copy_params this_conf (p # ps) b =
     copy_params this_conf ps
       (if hasOwnProperty this_conf p \<and> get_prop this_conf p \<noteq> JNull
        then AList.update p (get_prop this_conf p) b else b)"

text \<open>
  \<open>this.models[model].params\<close> for a name that \<open>in\<close> has found: the \<open>params\<close> of the
  catalog's entry, and \<open>undefined\<close> for a property of \<open>Object.prototype\<close>, which has no
  \<open>params\<close>.
\<close>

definition params_of :: "catalog \<Rightarrow> string \<Rightarrow> string list option" where
  "params_of ms m = (case map_of ms m of None \<Rightarrow> None | Some entry \<Rightarrow> params entry)"

text \<open>
  \<open>createBody(model, tempConf)\<close>, from \<open>this.#conf\<close> to the body and the new
  \<open>this.#conf\<close>. The model is \<open>None\<close> for \<open>undefined\<close>, which is not a string. A
  \<open>tempConf\<close> is set with \<open>configure\<close> and the old configuration assigned back after
  the loop; \<open>params\<close> that are \<open>undefined\<close> make the loop throw before that.
\<close>

definition createBody ::
  "catalog \<Rightarrow> jsobj \<Rightarrow> string option \<Rightarrow> jsobj option \<Rightarrow> (error + body) \<times> jsobj" where
  "createBody ms this_conf model tempConf =
     (case model of
        None \<Rightarrow> (Inl InvalidInput, this_conf)
      | Some m \<Rightarrow>
          if \<not> in_models m ms then (Inl UnknownModel, this_conf)
          else
            (case (case tempConf of
                     None \<Rightarrow> Inr (None, this_conf)
                   | Some tc \<Rightarrow>
                       (case configure ms this_conf tc of
                          Inl e \<Rightarrow> Inl e
                        | Inr oc \<Rightarrow> Inr (Some (fst oc), snd oc))) of
               Inl e \<Rightarrow> (Inl e, this_conf)
             | Inr configured \<Rightarrow>
                 (case params_of ms m of
                    None \<Rightarrow> (Inl RuntimeTypeError, snd configured)
                  | Some ps \<Rightarrow>
                      (Inr \<lparr>props = copy_params (snd configured) ps [(''model'', JStr m)],
                            messages = None, prompt = None\<rparr>,
                       case fst configured of
                         None \<Rightarrow> snd configured
                       | Some old \<Rightarrow> object_assign (snd configured) old))))"

subsection \<open>The session: history and summary\<close>

text \<open>
  A record of \<open>this.history\<close>, as \<open>chat\<close> pushes it, with \<open>turn_input\<close> and
  \<open>turn_output\<close> for its properties \<open>input\<close> and \<open>output\<close>. The per-turn summary that a
  background task attaches later is not part of it.
\<close>

record turn =
  turn_input :: string
  input_tokens :: int
  summarized :: bool
  turn_output :: string
  output_tokens :: int

text \<open>
  The mutable fields of the object. The catalog \<open>this.models\<close> is a parameter of the
  functions instead. The records of \<open>this.history\<close> are objects: an array of "live
  references" to them is a list of their indices in \<open>history\<close> (the array only grows,
  so an index keeps naming the same record).
\<close>

record session =
  conf :: jsobj
  history :: "turn list"
  summary :: string
  user_name :: string
  assistant_name :: string
  summarize_token_cutoff :: int
  summarize_token_target :: int

definition initial_session :: session where
  "initial_session =
     \<lparr>conf = initial_conf, history = [], summary = [], user_name = ''Human'',
      assistant_name = ''AI'', summarize_token_cutoff = 2048, summarize_token_target = 512\<rparr>"

text \<open>
  The constructor, for the name it is given: a name that is not empty becomes the
  user's name and the first stop sequence.
\<close>

definition new_session :: "string \<Rightarrow> session" where
  "new_session nm =
     (if nm \<noteq> [] then
        initial_session
          \<lparr>conf := AList.update ''stop'' (JArr [JStr ('' '' @ nm @ '':''), JStr '' AI:''])
                     initial_conf,
           user_name := nm\<rparr>
      else initial_session)"

definition newline :: string where
  "newline = [CHR 0x0A]"

definition role_name :: "role \<Rightarrow> string" where
  "role_name r = (case r of System \<Rightarrow> ''system'' | User \<Rightarrow> ''user'' | Assistant \<Rightarrow> ''assistant'')"

text \<open>\<open>this.names[role]\<close>; the object has no property \<open>system\<close>.\<close>

definition names :: "session \<Rightarrow> role \<Rightarrow> string" where
  "names s r =
     (case r of System \<Rightarrow> ''undefined'' | User \<Rightarrow> user_name s | Assistant \<Rightarrow> assistant_name s)"

definition formatMessage :: "session \<Rightarrow> string \<Rightarrow> role \<Rightarrow> string \<Rightarrow> formatted" where
  "formatMessage s format r content =
     (if format = ''chat'' then ChatMessage r content
      else Line ('' '' @ names s r @ '': '' @ content @ newline))"

text \<open>
  \<open>#getUnsummorizedHistory()\<close>: the loop runs from the last index down to \<open>0\<close> and
  pushes the records whose flag is \<open>false\<close>, so the newest comes first.
\<close>

definition getUnsummorizedHistory :: "turn list \<Rightarrow> nat list" where
  "getUnsummorizedHistory h = filter (\<lambda>i. \<not> summarized (h ! i)) (rev [0..<length h])"

text \<open>
  \<open>countHistoryTokens(history)\<close>. The loop runs over \<open>this.history\<close>; of the argument
  only the length is read.
\<close>

definition countHistoryTokens :: "turn list \<Rightarrow> 'a list \<Rightarrow> error + int" where
  "countHistoryTokens this_history arg =
     (let total = sum_list (map (\<lambda>r. input_tokens r + output_tokens r) this_history)
      in if total > 1000000 \<or> (length arg \<noteq> 0 \<and> total = 0)
         then Inl AccountingError else Inr total)"

text \<open>
  \<open>#formatHistory(format, history)\<close>: two messages are pushed for each turn, the user's
  and then the assistant's, and the array of messages is reversed.
\<close>

definition formatHistory :: "session \<Rightarrow> string \<Rightarrow> turn list \<Rightarrow> formatted list" where
  "formatHistory s format turns =
     rev (concat (map (\<lambda>t. [formatMessage s format User (turn_input t),
                            formatMessage s format Assistant (turn_output t)]) turns))"

text \<open>The records that a list of references names; a reference is an index of the history.\<close>

definition deref :: "turn list \<Rightarrow> nat list \<Rightarrow> turn list" where
  "deref h refs = map (\<lambda>i. h ! i) refs"

text \<open>The \<open>messages\<close> that \<open>chat\<close> renders for an input.\<close>

definition chat_messages :: "session \<Rightarrow> string \<Rightarrow> formatted list" where
  "chat_messages s inp =
     ChatMessage System (if summary s \<noteq> [] then summary s else ''You are a helpful assistant.'')
       # formatHistory s ''chat'' (deref (history s) (getUnsummorizedHistory (history s)))
       @ [ChatMessage User inp]"

subsection \<open>Fitting the response into the token limit\<close>

text \<open>\<open>Array.prototype.join\<close> on strings.\<close>

fun js_join :: "string \<Rightarrow> string list \<Rightarrow> string" where
  "js_join sep [] = []"
| "js_join sep [x] = x"
| "js_join sep (x # y # ys) = x @ sep @ js_join sep (y # ys)"

text \<open>
  \<open>extractContent\<close> of the two adapters. For chat, each message \<open>m\<close> gives
  \<open>`${m.role}: ${m.content}\n`\<close> (a string has neither property) and the lines are
  joined with a line feed; without \<open>messages\<close> the \<open>map\<close> throws. For completion it is
  \<open>body.prompt\<close>, possibly \<open>undefined\<close>.
\<close>

definition render_message :: "formatted \<Rightarrow> string" where
  "render_message m =
     (case m of
        ChatMessage r c \<Rightarrow> role_name r @ '': '' @ c @ newline
      | Line l \<Rightarrow> ''undefined: undefined'' @ newline)"

definition extractContent :: "adapter \<Rightarrow> body \<Rightarrow> error + jsval" where
  "extractContent ad b =
     (case ad of
        ChatAdapter \<Rightarrow>
          (case messages b of
             None \<Rightarrow> Inl RuntimeTypeError
           | Some msgs \<Rightarrow> Inr (JStr (js_join newline (map render_message msgs))))
      | CompletionAdapter \<Rightarrow>
          (case prompt b of None \<Rightarrow> Inr JUndefined | Some p \<Rightarrow> Inr (JStr p)))"

text \<open>
  \<open>this.models[body.model]\<close>, for the string that \<open>createBody\<close> puts there. \<open>None\<close> stands
  for \<open>undefined\<close> and for a property of \<open>Object.prototype\<close> alike: neither has an
  \<open>extractContent\<close> to call.
\<close>

definition body_entry :: "catalog \<Rightarrow> body \<Rightarrow> model_entry option" where
  "body_entry ms b = (case get_prop (props b) ''model'' of JStr m \<Rightarrow> map_of ms m | _ \<Rightarrow> None)"

text \<open>
  The numbers whose sums the embedding follows: the integers of absolute value up to
  \<open>2\<^sup>5\<^sup>2\<close>. The sum of two of them is the same number in doubles as in the integers.
\<close>

definition exact_int :: "rat \<Rightarrow> bool" where
  "exact_int r = (of_int \<lfloor>r\<rfloor> = r \<and> \<bar>r\<bar> \<le> 2 ^ 52)"

text \<open>
  \<open>(tokens + body.max_tokens) > model.token_limit\<close>. The sum of two numbers is a sum of
  doubles, whose rounding can decide the comparison: it is followed where it is exact,
  and not followed otherwise (\<open>None\<close>). The sum with \<open>undefined\<close> or \<open>NaN\<close> is \<open>NaN\<close>,
  which exceeds nothing; \<open>null\<close> and the booleans convert to \<open>0\<close> and \<open>1\<close>. With a
  string or an array the sum is a string concatenation, not followed either.
\<close>

fun sum_exceeds :: "rat \<Rightarrow> jsval \<Rightarrow> int \<Rightarrow> bool option" where
  "sum_exceeds t (JNum r) l =
     (if exact_int t \<and> exact_int r then Some (t + r > of_int l) else None)"
| "sum_exceeds t JNaN l = Some False"
| "sum_exceeds t JUndefined l = Some False"
| "sum_exceeds t JNull l = Some (t > of_int l)"
| "sum_exceeds t (JBool b) l =
     (if exact_int t then Some (t + (if b then 1 else 0) > of_int l) else None)"
| "sum_exceeds t (JStr s) l = None"
| "sum_exceeds t (JArr xs) l = None"

text \<open>
  \<open>#adjustMaxExpectedResponseTokens(body)\<close>; the body it leaves is the result. Reading a
  property of an \<open>undefined\<close> model and calling an \<open>undefined\<close> \<open>extractContent\<close> throw a
  \<open>TypeError\<close>.
\<close>

definition adjustMaxExpectedResponseTokens ::
  "catalog \<Rightarrow> encoder \<Rightarrow> body \<Rightarrow> error + body" where
  "adjustMaxExpectedResponseTokens ms encode b =
     (case body_entry ms b of
        None \<Rightarrow> Inl RuntimeTypeError
      | Some model \<Rightarrow>
          (case adapter model of
             None \<Rightarrow> Inl RuntimeTypeError
           | Some ad \<Rightarrow>
               (case extractContent ad b of
                  Inl e \<Rightarrow> Inl e
                | Inr content \<Rightarrow>
                    (case countTokens ms encode content of
                       Inl e \<Rightarrow> Inl e
                     | Inr (JNum tokens) \<Rightarrow>
                         if tokens > of_int (token_limit model) then Inl PromptTooLarge
                         else if hasOwnProperty (props b) ''max_tokens'' then
                           (case sum_exceeds tokens (get_prop (props b) ''max_tokens'')
                                   (token_limit model) of
                              None \<Rightarrow> Inl Unmodelled
                            | Some True \<Rightarrow>
                                Inr (b\<lparr>props := AList.update ''max_tokens''
                                       (JNum (of_int (token_limit model) - tokens)) (props b)\<rparr>)
                            | Some False \<Rightarrow> Inr b)
                         else Inr b
                     | Inr _ \<Rightarrow> Inr b))))"

subsection \<open>Calling the backend\<close>

text \<open>
  The first element of \<open>response.data.choices\<close>, as far as the adapters read it:
  \<open>message.content\<close> (chat), \<open>text\<close> (completion, here \<open>choice_text\<close>) and
  \<open>finish_reason\<close>. \<open>None\<close> is a
  missing \<open>message\<close>, \<open>content\<close> or \<open>text\<close>, and \<open>null\<close> for the reason.
\<close>

record choice =
  message_content :: "string option"
  choice_text :: "string option"
  finish_reason :: "string option"

type_synonym response = "choice list"

text \<open>
  The call \<open>this.conn[model.method](body)\<close> resolves with a response, rejects with an
  error that carries the backend's \<open>response\<close> (status and error object), or throws
  something else.
\<close>

datatype api_result = ApiResponse response | ApiRejected | ApiThrew

type_synonym connection = "string \<Rightarrow> body \<Rightarrow> api_result"

text \<open>
  \<open>String.prototype.trim\<close>, for the white space and line terminators among the
  characters of the model: tab, line feed, vertical tab, form feed, carriage return,
  space and no-break space.
\<close>

definition is_space :: "char \<Rightarrow> bool" where
  "is_space c = (c \<in> set [CHR 0x09, CHR 0x0A, CHR 0x0B, CHR 0x0C, CHR 0x0D, CHR 0x20, CHR 0xA0])"

definition trim :: "string \<Rightarrow> string" where
  "trim s = rev (dropWhile is_space (rev (dropWhile is_space s)))"

text \<open>
  \<open>extractResponse\<close> and \<open>getFinishReason\<close> of the adapters. An empty \<open>choices\<close>, a
  missing \<open>message\<close> and a missing text make \<open>extractResponse\<close> throw (\<open>None\<close>).
\<close>

definition extractResponse :: "adapter \<Rightarrow> response \<Rightarrow> string option" where
  "extractResponse ad r =
     (case r of
        [] \<Rightarrow> None
      | c # _ \<Rightarrow>
          map_option trim (case ad of ChatAdapter \<Rightarrow> message_content c | CompletionAdapter \<Rightarrow> choice_text c))"

definition getFinishReason :: "response \<Rightarrow> string option" where
  "getFinishReason r = (case r of [] \<Rightarrow> None | c # _ \<Rightarrow> finish_reason c)"

definition finish_warning :: "string option \<Rightarrow> string" where
  "finish_warning reason =
     newline @ ''[WARNING: stopped generating output because '' @ [CHR 0x27]
       @ (case reason of None \<Rightarrow> ''null'' | Some r \<Rightarrow> r) @ [CHR 0x27] @ '']''"

text \<open>
  \<open>#makeApiCall(body)\<close>, with a rejected promise as \<open>Inl\<close>. Whatever the first \<open>try\<close>
  catches without a \<open>response\<close> is wrapped as the cause of \<open>RequestFailed\<close>; whatever
  the second \<open>try\<close> catches becomes \<open>ResponseParseError\<close>.
\<close>

definition parse_response :: "model_entry \<Rightarrow> response \<Rightarrow> error + string" where
  "parse_response model r =
     (case adapter model of
        None \<Rightarrow> Inl ResponseParseError
      | Some ad \<Rightarrow>
          (case extractResponse ad r of
             None \<Rightarrow> Inl ResponseParseError
           | Some out \<Rightarrow>
               if length out = 0 then Inl ResponseParseError
               else if getFinishReason r \<noteq> Some ''stop''
                    then Inr (out @ finish_warning (getFinishReason r))
                    else Inr out))"

definition makeApiCall :: "catalog \<Rightarrow> encoder \<Rightarrow> connection \<Rightarrow> body \<Rightarrow> error + string" where
  "makeApiCall ms encode conn b =
     (case adjustMaxExpectedResponseTokens ms encode b of
        Inl e \<Rightarrow> Inl (RequestFailed e)
      | Inr b' \<Rightarrow>
          (case body_entry ms b of
             None \<Rightarrow> Inl (RequestFailed RuntimeTypeError)
           | Some model \<Rightarrow>
               (case api_method model of
                  None \<Rightarrow> Inl (RequestFailed RuntimeTypeError)
                | Some meth \<Rightarrow>
                    (case conn meth b' of
                       ApiRejected \<Rightarrow> Inl BackendError
                     | ApiThrew \<Rightarrow> Inl (RequestFailed ConnError)
                     | ApiResponse r \<Rightarrow> parse_response model r))))"

subsection \<open>\<open>query\<close>\<close>

text \<open>
  \<open>#checkNonemptyString(text)\<close>: a \<open>TypeError\<close> for a value that is not a string, an
  \<open>Error\<close> for the empty string.
\<close>

definition checkNonemptyString :: "jsval \<Rightarrow> error + string" where
  "checkNonemptyString v =
     (case v of
        JStr str \<Rightarrow> if str = [] then Inl InvalidInput else Inr str
      | _ \<Rightarrow> Inl InvalidInput)"

text \<open>
  \<open>query(input, tempConf)\<close> in two steps: what runs before \<open>#makeApiCall\<close> and can throw
  (\<open>query_body\<close>, which also gives the new \<open>this.#conf\<close>), and the call.
\<close>

definition query_body ::
  "catalog \<Rightarrow> jsobj \<Rightarrow> jsval \<Rightarrow> jsobj option \<Rightarrow> (error + body) \<times> jsobj" where
  "query_body ms this_conf inp tempConf =
     (case checkNonemptyString inp of
        Inl e \<Rightarrow> (Inl e, this_conf)
      | Inr str \<Rightarrow>
          (case getModelName ms tempConf ''query'' of
             Inl e \<Rightarrow> (Inl e, this_conf)
           | Inr model \<Rightarrow>
               (case fst (createBody ms this_conf model tempConf) of
                  Inl e \<Rightarrow> (Inl e, snd (createBody ms this_conf model tempConf))
                | Inr b \<Rightarrow> (Inr (b\<lparr>prompt := Some str\<rparr>),
                            snd (createBody ms this_conf model tempConf)))))"

definition query ::
  "catalog \<Rightarrow> encoder \<Rightarrow> connection \<Rightarrow> jsobj \<Rightarrow> jsval \<Rightarrow> jsobj option
     \<Rightarrow> (error + string) \<times> jsobj" where
  "query ms encode conn this_conf inp tempConf =
     (case fst (query_body ms this_conf inp tempConf) of
        Inl e \<Rightarrow> (Inl e, snd (query_body ms this_conf inp tempConf))
      | Inr b \<Rightarrow> (makeApiCall ms encode conn b, snd (query_body ms this_conf inp tempConf)))"

subsection \<open>\<open>summarize\<close>\<close>

text \<open>
  The prompt of \<open>summarize\<close>. Appending the array of formatted lines to a string
  joins them with commas.
\<close>

definition formatted_text :: "formatted \<Rightarrow> string" where
  "formatted_text m = (case m of Line l \<Rightarrow> l | ChatMessage r c \<Rightarrow> ''[object Object]'')"

definition summarize_prompt :: "session \<Rightarrow> turn list \<Rightarrow> string" where
  "summarize_prompt s turns =
     (let p = ''conversation between yourself ('' @ assistant_name s @ '') and a human (''
                @ user_name s @ '')''
      in (if summary s \<noteq> []
          then ''Please update the following summary of a '' @ p
                 @ '' with the new messages which will follow.'' @ newline @ newline
                 @ ''Existing summary:'' @ newline @ summary s @ newline @ newline
                 @ ''New messages:'' @ newline
          else ''Please summarize the following '' @ p @ '':'' @ newline @ newline)
         @ js_join '','' (map formatted_text (formatHistory s ''query'' turns)))"

text \<open>
  The references that \<open>summarize(history, tokens)\<close> works on: the argument, or the whole
  of \<open>this.history\<close> when there is none (an empty array is an argument).
\<close>

definition summarize_refs :: "session \<Rightarrow> nat list option \<Rightarrow> nat list" where
  "summarize_refs s hist = (case hist of None \<Rightarrow> [0..<length (history s)] | Some refs \<Rightarrow> refs)"

text \<open>
  The part of \<open>summarize\<close> up to the request body: \<open>tokens || countHistoryTokens(history)\<close>
  counts when no count was passed or the count is \<open>0\<close>, and \<open>query\<close> builds the body with
  \<open>max_tokens\<close> set to the target.
\<close>

definition summarize_body ::
  "catalog \<Rightarrow> session \<Rightarrow> nat list option \<Rightarrow> int option \<Rightarrow> (error + body) \<times> session" where
  "summarize_body ms s hist toks =
     (let refs = summarize_refs s hist;
          toks1 = (case hist of None \<Rightarrow> None | Some _ \<Rightarrow> toks);
          counted = (case toks1 of
                       None \<Rightarrow> countHistoryTokens (history s) refs
                     | Some n \<Rightarrow> if n \<noteq> 0 then Inr n else countHistoryTokens (history s) refs)
      in case counted of
           Inl e \<Rightarrow> (Inl e, s)
         | Inr n \<Rightarrow>
             (let q = query_body ms (conf s) (JStr (summarize_prompt s (deref (history s) refs)))
                        (Some [(''max_tokens'', JNum (of_int (summarize_token_target s)))])
              in (fst q, s\<lparr>conf := snd q\<rparr>)))"

text \<open>
  The callback of \<open>summarize\<close>: a summary that starts with the assistant's name loses
  the name and one more character; every referenced record is marked.
\<close>

definition strip_label :: "string \<Rightarrow> string \<Rightarrow> string" where
  "strip_label nm sm = (if take (length nm) sm = nm then drop (length nm + 1) sm else sm)"

definition mark_summarized :: "turn list \<Rightarrow> nat list \<Rightarrow> turn list" where
  "mark_summarized h refs = fold (\<lambda>i h'. h'[i := (h' ! i)\<lparr>summarized := True\<rparr>]) refs h"

text \<open>
  \<open>summarize(history, tokens)\<close> from the call to the settled promise, with no other
  task of the session running in between. A failure leaves the promise rejected and the
  callback unrun.
\<close>

definition summarize ::
  "catalog \<Rightarrow> encoder \<Rightarrow> connection \<Rightarrow> session \<Rightarrow> nat list option \<Rightarrow> int option
     \<Rightarrow> (error + string) \<times> session" where
  "summarize ms encode conn s hist toks =
     (let prepared = summarize_body ms s hist toks; s1 = snd prepared
      in case fst prepared of
           Inl e \<Rightarrow> (Inl e, s1)
         | Inr b \<Rightarrow>
             (case makeApiCall ms encode conn b of
                Inl e \<Rightarrow> (Inl e, s1)
              | Inr sm \<Rightarrow>
                  (Inr (strip_label (assistant_name s1) sm),
                   s1\<lparr>summary := strip_label (assistant_name s1) sm,
                       history := mark_summarized (history s1) (summarize_refs s hist)\<rparr>)))"

subsection \<open>\<open>chat\<close>\<close>

text \<open>
  After the response, \<open>chat\<close> starts two background tasks and does not wait for them.
  What they do before their first \<open>await\<close> runs inside \<open>chat\<close>:
  \<^item> \<open>#summarizeSingleInputOutput\<close> calls \<open>query\<close>, which is not \<open>async\<close>: building the
    body changes \<open>this.#conf\<close> and can throw into \<open>chat\<close>;
  \<^item> \<open>#summarizeConversationIfCutoffExceeded\<close> counts the tokens, which can throw into
    \<open>chat\<close>, and past the cutoff calls \<open>summarize\<close>, which is \<open>async\<close>: it builds its body
    and keeps its errors to its own promise.
  The results of the two tasks arrive later and are not part of \<open>chat\<close>.
\<close>

definition micro_prompt :: "string \<Rightarrow> string \<Rightarrow> string" where
  "micro_prompt inp out =
     ''Please summarize this question and answer in 1 sentence each. Do not add flurishes and try to keep ''
     @ ''it short while including the relevant information. If the question or answer is short enough just return the ''
     @ ''original string unaltered. Respond on 2 separate lines.''
     @ newline @ newline @ ''Q: '' @ inp @ newline @ newline @ ''A: '' @ out"

definition micro_conf :: jsobj where
  "micro_conf = [(''temperature'', JNum (4 / 10)), (''max_tokens'', JNum 50)]"

definition summarizeSingleInputOutput ::
  "catalog \<Rightarrow> jsobj \<Rightarrow> string \<Rightarrow> string \<Rightarrow> (error + body) \<times> jsobj" where
  "summarizeSingleInputOutput ms this_conf inp out =
     query_body ms this_conf (JStr (micro_prompt inp out)) (Some micro_conf)"

definition summarizeConversationIfCutoffExceeded ::
  "catalog \<Rightarrow> session \<Rightarrow> bool \<Rightarrow> (error + unit) \<times> session" where
  "summarizeConversationIfCutoffExceeded ms s force =
     (let refs = getUnsummorizedHistory (history s)
      in if length refs \<noteq> 0 then
           (case countHistoryTokens (history s) refs of
              Inl e \<Rightarrow> (Inl e, s)
            | Inr tokens \<Rightarrow>
                if force \<or> tokens > summarize_token_cutoff s
                then (Inr (), snd (summarize_body ms s (Some refs) (Some tokens)))
                else (Inr (), s))
         else (Inr (), s))"

text \<open>
  \<open>chat(input, tempConf = {})\<close>, to the point where its promise settles. The last
  statement calls \<open>.catch\<close> on what \<open>#summarizeConversationIfCutoffExceeded\<close> returns; the
  method has no \<open>return\<close>, so this is \<open>undefined.catch\<close>, a \<open>TypeError\<close>.
\<close>

definition chat_background :: "catalog \<Rightarrow> session \<Rightarrow> string \<Rightarrow> string \<Rightarrow> (error + string) \<times> session" where
  "chat_background ms s inp out =
     (let q = summarizeSingleInputOutput ms (conf s) inp out;
          s1 = s\<lparr>conf := snd q\<rparr>
      in case fst q of
           Inl e \<Rightarrow> (Inl e, s1)
         | Inr b \<Rightarrow>
             (case fst (summarizeConversationIfCutoffExceeded ms s1 False) of
                Inl e \<Rightarrow> (Inl e, snd (summarizeConversationIfCutoffExceeded ms s1 False))
              | Inr u \<Rightarrow> (Inl RuntimeTypeError, snd (summarizeConversationIfCutoffExceeded ms s1 False))))"

definition chat_body ::
  "catalog \<Rightarrow> session \<Rightarrow> jsval \<Rightarrow> jsobj option \<Rightarrow> (error + body) \<times> session" where
  "chat_body ms s inp tempConf0 =
     (let tempConf = (case tempConf0 of None \<Rightarrow> Some [] | Some tc \<Rightarrow> Some tc)
      in case checkNonemptyString inp of
           Inl e \<Rightarrow> (Inl e, s)
         | Inr str \<Rightarrow>
             (case getModelName ms tempConf ''chat'' of
                Inl e \<Rightarrow> (Inl e, s)
              | Inr model \<Rightarrow>
                  (let built = createBody ms (conf s) model tempConf; s1 = s\<lparr>conf := snd built\<rparr>
                   in case fst built of
                        Inl e \<Rightarrow> (Inl e, s1)
                      | Inr b \<Rightarrow> (Inr (b\<lparr>messages := Some (chat_messages s1 str)\<rparr>), s1))))"

text \<open>The input as a string, once \<open>#checkNonemptyString\<close> has let it pass.\<close>

definition string_of :: "jsval \<Rightarrow> string" where
  "string_of v = (case v of JStr str \<Rightarrow> str | _ \<Rightarrow> [])"

definition chat ::
  "catalog \<Rightarrow> encoder \<Rightarrow> connection \<Rightarrow> session \<Rightarrow> jsval \<Rightarrow> jsobj option
     \<Rightarrow> (error + string) \<times> session" where
  "chat ms encode conn s inp tempConf =
     (let built = chat_body ms s inp tempConf; s1 = snd built
      in case fst built of
           Inl e \<Rightarrow> (Inl e, s1)
         | Inr b \<Rightarrow>
             (case makeApiCall ms encode conn b of
                Inl e \<Rightarrow> (Inl e, s1)
              | Inr out \<Rightarrow>
                  chat_background ms
                    (s1\<lparr>history := history s1 @
                          [\<lparr>turn_input = string_of inp,
                            input_tokens = countTokens_str ms encode (string_of inp),
                            summarized = False, turn_output = out,
                            output_tokens = countTokens_str ms encode out\<rparr>]\<rparr>)
                    (string_of inp) out))"

subsection \<open>Sample inputs\<close>

text \<open>A history of two turns, the first one already summarized.\<close>

definition two_turns :: "turn list" where
  "two_turns =
     [\<lparr>turn_input = ''q1'', input_tokens = 10, summarized = True,
       turn_output = ''a1'', output_tokens = 20\<rparr>,
      \<lparr>turn_input = ''q2'', input_tokens = 1, summarized = False,
       turn_output = ''a2'', output_tokens = 2\<rparr>]"

text \<open>A session after two turns, none of them summarized yet.\<close>

definition fresh_turns :: "turn list" where
  "fresh_turns =
     [\<lparr>turn_input = ''q1'', input_tokens = 1, summarized = False,
       turn_output = ''a1'', output_tokens = 1\<rparr>,
      \<lparr>turn_input = ''q2'', input_tokens = 1, summarized = False,
       turn_output = ''a2'', output_tokens = 1\<rparr>]"

definition session_after_two :: session where
  "session_after_two = initial_session\<lparr>history := fresh_turns\<rparr>"

text \<open>A catalog of the two base models of \<open>this.models\<close> only.\<close>

definition base_models :: catalog where
  "base_models = drop 3 models"

text \<open>
  A completion request whose prompt counts as many tokens as \<open>text-davinci-003\<close>
  takes, \<open>4096\<close>, and which asks for \<open>1024\<close> more.
\<close>

definition full_prompt_body :: body where
  "full_prompt_body =
     \<lparr>props = [(''model'', JStr ''text-davinci-003''), (''max_tokens'', JNum 1024)],
      messages = None,
      prompt = Some (replicate 4096 (CHR ''a''))\<rparr>"

text \<open>The same request with a prompt of \<open>16388\<close> characters.\<close>

definition oversized_body :: body where
  "oversized_body =
     \<lparr>props = [(''model'', JStr ''text-davinci-003''), (''max_tokens'', JNum 1024)],
      messages = None,
      prompt = Some (replicate 16388 (CHR ''a''))\<rparr>"

text \<open>
  Three backends: one that rejects every request, one that answers every request with a
  blank text, and one that answers with the assistant's label alone.
\<close>

definition rejecting_conn :: connection where
  "rejecting_conn meth b = ApiRejected"

definition blank_conn :: connection where
  "blank_conn meth b =
     ApiResponse [\<lparr>message_content = Some '' '', choice_text = Some '' '',
                   finish_reason = Some ''stop''\<rparr>]"

definition label_conn :: connection where
  "label_conn meth b =
     ApiResponse [\<lparr>message_content = Some ''AI:'', choice_text = Some ''AI:'',
                   finish_reason = Some ''stop''\<rparr>]"

section \<open>Properties\<close>

subsection \<open>The response budget\<close>

lemma countTokens_JStr:
  "countTokens ms encode (JStr str) = Inr (JNum (of_int (countTokens_str ms encode str)))"
  by (simp add: countTokens_def)

lemma countTokens_str_nonneg: "0 \<le> countTokens_str ms encode str"
  by (simp add: countTokens_str_def Let_def split: option.splits)

lemma exact_int_of_int: "exact_int (of_int n) \<longleftrightarrow> \<bar>n\<bar> \<le> 2 ^ 52"
proof -
  have "\<bar>rat_of_int n\<bar> \<le> 2 ^ 52 \<longleftrightarrow> rat_of_int \<bar>n\<bar> \<le> rat_of_int (2 ^ 52)"
    by simp
  also have "\<dots> \<longleftrightarrow> \<bar>n\<bar> \<le> 2 ^ 52"
    by (rule of_int_le_iff)
  finally show ?thesis
    by (simp add: exact_int_def)
qed

text \<open>
  C1 (as amended). Let \<open>P\<close> be the counted tokens of the request's content, \<open>C\<close> the
  \<open>token_limit\<close> of its model and the integer \<open>R\<close> the \<open>max_tokens\<close> of the body, with
  \<open>C\<close> and the absolute value of \<open>R\<close> at most \<open>2\<^sup>5\<^sup>2\<close>. If \<open>P \<le> C\<close> and \<open>P + R > C\<close>,
  the body leaves \<open>#adjustMaxExpectedResponseTokens\<close> with \<open>max_tokens\<close> equal to
  \<open>C - P\<close>; if \<open>P \<le> C\<close> and \<open>P + R \<le> C\<close>, the body is left as it is; and if \<open>P > C\<close>,
  the method throws the error "The query is too big for the model".
\<close>

theorem adjust_clamps_to_budget:
  fixes R :: int
  assumes "body_entry ms b = Some model"
    and "adapter model = Some ad"
    and "extractContent ad b = Inr (JStr content)"
    and "map_of (props b) ''max_tokens'' = Some (JNum (of_int R))"
    and "P = countTokens_str ms encode content"
    and "C = token_limit model"
    and "C \<le> 2 ^ 52"
    and "\<bar>R\<bar> \<le> 2 ^ 52"
  shows "(P \<le> C \<and> P + R > C \<longrightarrow>
            adjustMaxExpectedResponseTokens ms encode b
              = Inr (b\<lparr>props := AList.update ''max_tokens'' (JNum (of_int (C - P))) (props b)\<rparr>)
            \<and> get_prop (AList.update ''max_tokens'' (JNum (of_int (C - P))) (props b))
                 ''max_tokens'' = JNum (of_int (C - P)))
       \<and> (P \<le> C \<and> P + R \<le> C \<longrightarrow>
            adjustMaxExpectedResponseTokens ms encode b = Inr b)
       \<and> (P > C \<longrightarrow> adjustMaxExpectedResponseTokens ms encode b = Inl PromptTooLarge)"
proof -
  have "0 \<le> P"
    using assms(5) by (simp add: countTokens_str_nonneg)
  then have sum: "P \<le> C \<Longrightarrow> sum_exceeds (of_int P) (JNum (of_int R)) C = Some (P + R > C)"
    using assms(7,8) by (simp add: exact_int_of_int of_int_add [symmetric] del: of_int_add)
  show ?thesis
    using assms(1-6) sum
    by (simp add: adjustMaxExpectedResponseTokens_def countTokens_JStr hasOwnProperty_def
        get_prop_def AList.update_conv')
qed

theorem adjust_clamps_to_budget_witness:
  "adjustMaxExpectedResponseTokens models char_encode full_prompt_body
       = Inr (full_prompt_body\<lparr>props := [(''model'', JStr ''text-davinci-003''),
                                          (''max_tokens'', JNum 0)]\<rparr>)
   \<and> adjustMaxExpectedResponseTokens models failing_encode oversized_body = Inl PromptTooLarge"
proof -
  let ?m = "the (map_of models ''text-davinci-003'')"
  have e1: "body_entry models full_prompt_body = Some ?m"
    by (simp add: body_entry_def full_prompt_body_def get_prop_def models_def)
  have e2: "body_entry models oversized_body = Some ?m"
    by (simp add: body_entry_def oversized_body_def get_prop_def models_def)
  have ad: "adapter ?m = Some CompletionAdapter"
    by (simp add: models_def)
  have lim: "token_limit ?m = 4096"
    by (simp add: models_def)
  have c1: "extractContent CompletionAdapter full_prompt_body
              = Inr (JStr (replicate 4096 (CHR ''a'')))"
    by (simp add: extractContent_def full_prompt_body_def)
  have c2: "extractContent CompletionAdapter oversized_body
              = Inr (JStr (replicate 16388 (CHR ''a'')))"
    by (simp add: extractContent_def oversized_body_def)
  have m1: "map_of (props full_prompt_body) ''max_tokens'' = Some (JNum (of_int 1024))"
    by (simp add: full_prompt_body_def)
  have m2: "map_of (props oversized_body) ''max_tokens'' = Some (JNum (of_int 1024))"
    by (simp add: oversized_body_def)
  have p1: "countTokens_str models char_encode (replicate 4096 (CHR ''a'')) = 4096"
    by (simp add: countTokens_str_def char_encode_def exceeds_max_token_limit_def models_def)
  have p2: "countTokens_str models failing_encode (replicate 16388 (CHR ''a'')) = 4097"
    by (simp add: countTokens_str_def failing_encode_def)
  show ?thesis
    using adjust_clamps_to_budget [OF e1 ad c1 m1 p1 [symmetric] lim [symmetric]]
      adjust_clamps_to_budget [OF e2 ad c2 m2 p2 [symmetric] lim [symmetric]]
    by (simp add: full_prompt_body_def)
qed

text \<open>
  The claim as worded has the call fail already when \<open>P = C\<close>. A prompt of \<open>4096\<close>
  tokens for a model that takes \<open>4096\<close> passes the test \<open>tokens > model.token_limit\<close>,
  and the body is returned with \<open>max_tokens\<close> set to \<open>0\<close>.
\<close>

theorem adjust_at_limit_counterexample:
  "countTokens_str models char_encode (replicate 4096 (CHR ''a'')) = 4096
   \<and> map_option token_limit (body_entry models full_prompt_body) = Some 4096
   \<and> adjustMaxExpectedResponseTokens models char_encode full_prompt_body
       = Inr (full_prompt_body\<lparr>props := [(''model'', JStr ''text-davinci-003''),
                                          (''max_tokens'', JNum 0)]\<rparr>)"
  by (simp add: adjustMaxExpectedResponseTokens_def countTokens_JStr hasOwnProperty_def
      get_prop_def full_prompt_body_def body_entry_def models_def extractContent_def
      countTokens_str_def char_encode_def exceeds_max_token_limit_def exact_int_def)

subsection \<open>The order of the rendered history\<close>

text \<open>
  What \<open>chat\<close> renders between the system message and the new input, for any history:
  the unsummarized turns in the order of the history, each as the assistant's message
  followed by the user's. The two reversals cancel on the order of the turns and leave
  each pair swapped.
\<close>

lemma unsummarized_turns_in_order:
  "deref h (rev (getUnsummorizedHistory h)) = filter (\<lambda>t. \<not> summarized t) h"
proof -
  have "deref h (rev (getUnsummorizedHistory h))
          = map (\<lambda>i. h ! i) (filter (\<lambda>i. \<not> summarized (h ! i)) [0..<length h])"
    by (simp add: deref_def getUnsummorizedHistory_def rev_filter)
  also have "\<dots> = filter (\<lambda>t. \<not> summarized t) (map (\<lambda>i. h ! i) [0..<length h])"
    by (simp add: filter_map comp_def)
  also have "\<dots> = filter (\<lambda>t. \<not> summarized t) h"
    by (simp add: map_nth)
  finally show ?thesis .
qed

lemma formatHistory_swaps_pairs:
  "formatHistory s ''chat'' (deref h (getUnsummorizedHistory h)) =
     concat (map (\<lambda>t. [ChatMessage Assistant (turn_output t), ChatMessage User (turn_input t)])
               (filter (\<lambda>t. \<not> summarized t) h))"
proof -
  have "formatHistory s ''chat'' (deref h (getUnsummorizedHistory h)) =
          concat (map (\<lambda>t. [ChatMessage Assistant (turn_output t), ChatMessage User (turn_input t)])
                    (rev (deref h (getUnsummorizedHistory h))))"
    by (simp add: formatHistory_def formatMessage_def rev_concat rev_map comp_def)
  also have "rev (deref h (getUnsummorizedHistory h)) = deref h (rev (getUnsummorizedHistory h))"
    by (simp add: deref_def rev_map)
  finally show ?thesis
    by (simp add: unsummarized_turns_in_order)
qed

text \<open>
  C2. After two turns \<open>(q1, a1)\<close> and \<open>(q2, a2)\<close>, none summarized, the messages that
  \<open>chat\<close> renders for the input \<open>now\<close> have the turns in chronological order, but in each
  turn the assistant's output comes before the user's input it answers.
\<close>

theorem chat_messages_assistant_before_user:
  "chat_messages session_after_two ''now'' =
     [ChatMessage System ''You are a helpful assistant.'',
      ChatMessage Assistant ''a1'', ChatMessage User ''q1'',
      ChatMessage Assistant ''a2'', ChatMessage User ''q2'',
      ChatMessage User ''now'']"
  by code_simp

subsection \<open>The token count of a history\<close>

lemma countHistoryTokens_total:
  "countHistoryTokens h arg = Inr n \<Longrightarrow>
     n = sum_list (map (\<lambda>r. input_tokens r + output_tokens r) h)"
  by (simp add: countHistoryTokens_def Let_def split: if_splits)

text \<open>
  C3. With a summarized turn of \<open>30\<close> tokens and an unsummarized turn of \<open>3\<close> tokens in
  \<open>this.history\<close>, the count for the unsummarized turns alone is \<open>33\<close>, the total of the
  whole history, and so is the count for the empty sequence.
\<close>

theorem countHistoryTokens_counts_whole_history:
  "getUnsummorizedHistory two_turns = [1]
   \<and> sum_list (map (\<lambda>r. input_tokens r + output_tokens r) (deref two_turns [1])) = 3
   \<and> countHistoryTokens two_turns (getUnsummorizedHistory two_turns) = Inr 33
   \<and> countHistoryTokens two_turns ([] :: nat list) = Inr 33"
  by (simp add: two_turns_def getUnsummorizedHistory_def countHistoryTokens_def deref_def)

subsection \<open>The fallback estimate of the token counter\<close>

text \<open>
  C4 (as amended). For every string, when the tokenizer throws, or returns no token, or
  returns more tokens than the largest \<open>token_limit\<close> of the catalog, \<open>#countTokens\<close>
  returns \<open>Math.floor(str.length / 4)\<close>, a quarter of the length rounded down, and
  returns it as a value: the tokenizer's failure does not reach the caller.
\<close>

theorem countTokens_fallback_floor:
  assumes "encode s = None \<or>
     (\<exists>toks. encode s = Some toks \<and>
        (length toks = 0 \<or> exceeds_max_token_limit ms (int (length toks))))"
  shows "countTokens ms encode (JStr s) = Inr (JNum (of_nat (length s div 4)))"
  using assms by (auto simp: countTokens_def countTokens_str_def Let_def)

theorem countTokens_fallback_floor_witness:
  "countTokens models failing_encode (JStr ''abcdefgh'') = Inr (JNum 2)"
  using countTokens_fallback_floor [of failing_encode "''abcdefgh''" models]
  by (simp add: failing_encode_def)

text \<open>
  The claim as worded has the quotient rounded up. On \<open>"abc"\<close> with a failing tokenizer
  the code answers \<open>0\<close>, and the quotient rounded up is \<open>1\<close>.
\<close>

theorem countTokens_ceil_counterexample:
  "countTokens models failing_encode (JStr ''abc'')
     \<noteq> Inr (JNum (of_int \<lceil>of_nat (length ''abc'') / (4::rat)\<rceil>))"
proof -
  have "\<lceil>3 / (4::rat)\<rceil> = 1"
    by (simp add: ceiling_eq_iff)
  then show ?thesis
    by (simp add: countTokens_def countTokens_str_def failing_encode_def)
qed

subsection \<open>The token counter on a value that is not a string\<close>

text \<open>
  C5. The \<open>TypeError\<close> that \<open>#countTokens\<close> throws for a non-string is thrown inside the
  \<open>try\<close>, so the \<open>catch\<close> swallows it and answers from \<open>str.length\<close>: an array of eight
  elements is counted as \<open>2\<close> tokens, where the claim has the call fail.
\<close>

theorem countTokens_array_returns_number:
  "countTokens models char_encode
     (JArr [JNum 1, JNum 2, JNum 3, JNum 4, JNum 5, JNum 6, JNum 7, JNum 8])
   = Inr (JNum 2)"
  by (simp add: countTokens_def)

subsection \<open>The last resort of the model selection\<close>

lemma getModelName_known:
  "conf_model tempConf = Inr (Some m) \<Longrightarrow> m \<in> set (map fst ms) \<Longrightarrow>
     getModelName ms tempConf u = Inr (Some m)"
  by (simp add: getModelName_def Let_def in_models_def)

lemma getModelName_by_usage:
  "conf_model tempConf = Inr None \<Longrightarrow> defaultForUsage ms u = Some m \<Longrightarrow> m \<noteq> [] \<Longrightarrow>
     getModelName ms tempConf u = Inr (Some m)"
  by (simp add: getModelName_def Let_def)

text \<open>
  C6. When no model is named and none has the usage, \<open>#getModelName\<close> returns the
  property \<open>name\<close> of the first entry, which no entry has: for the catalog of the two
  base models and the usage \<open>chat\<close>, and for the whole catalog and the usage
  \<open>completion\<close>, the result is \<open>undefined\<close>, not a model of the catalog.
\<close>

theorem getModelName_last_resort_undefined:
  "getModelName base_models None ''chat'' = Inr None
   \<and> getModelName models None ''completion'' = Inr None"
  by code_simp

subsection \<open>Overrides and the persisted configuration\<close>

text \<open>
  C7. \<open>createBody\<close> for \<open>gpt-4\<close> with the override \<open>{user: "bob"}\<close>, on the initial
  configuration: \<open>Object.assign(this.#conf, oldConf)\<close> writes the old properties back and
  leaves the new one, so \<open>user\<close> stays in \<open>this.#conf\<close> and is sent with the next body
  that is built without an override. The same holds for the key \<open>model\<close>.
\<close>

theorem createBody_override_leaks:
  "get_prop initial_conf ''user'' = JUndefined
   \<and> get_prop (snd (createBody models initial_conf (Some ''gpt-4'')
                      (Some [(''user'', JStr ''bob'')]))) ''user'' = JStr ''bob''
   \<and> snd (createBody models initial_conf (Some ''gpt-4'') (Some [(''user'', JStr ''bob'')]))
        \<noteq> initial_conf
   \<and> map_sum id (\<lambda>b. get_prop (props b) ''user'')
        (fst (createBody models
               (snd (createBody models initial_conf (Some ''gpt-4'')
                       (Some [(''user'', JStr ''bob'')])))
               (Some ''gpt-4'') None))
       = Inr (JStr ''bob'')
   \<and> get_prop (snd (createBody models initial_conf (Some ''gpt-4'')
                      (Some [(''model'', JStr ''gpt-4'')]))) ''model'' = JStr ''gpt-4''"
  by code_simp

subsection \<open>The response text is never empty\<close>

lemma parse_response_nonempty: "parse_response model r = Inr out \<Longrightarrow> out \<noteq> []"
  by (auto simp: parse_response_def split: option.splits if_splits)

lemma makeApiCall_nonempty: "makeApiCall ms encode conn b = Inr out \<Longrightarrow> out \<noteq> []"
  by (auto simp: makeApiCall_def split: sum.splits option.splits api_result.splits
      dest: parse_response_nonempty)

lemma makeApiCall_response:
  "makeApiCall ms encode conn b = Inr out \<Longrightarrow> \<exists>meth b' r. conn meth b' = ApiResponse r"
  by (auto simp: makeApiCall_def split: sum.splits option.splits api_result.splits)

text \<open>
  The promise of \<open>chat\<close> is never fulfilled: when the backend has answered and the turn
  is recorded, the call of \<open>.catch\<close> on \<open>undefined\<close> rejects it.
\<close>

lemma chat_background_rejects: "fst (chat_background ms s inp out) \<noteq> Inr x"
  by (simp add: chat_background_def Let_def split: sum.splits)

lemma chat_never_resolves: "fst (chat ms encode conn s inp tempConf) \<noteq> Inr out"
  by (simp add: chat_def Let_def chat_background_rejects split: sum.splits)

subsection \<open>A failed summarization\<close>

lemma summarize_body_frame:
  "summary (snd (summarize_body ms s hist toks)) = summary s"
  "history (snd (summarize_body ms s hist toks)) = history s"
  "assistant_name (snd (summarize_body ms s hist toks)) = assistant_name s"
  "user_name (snd (summarize_body ms s hist toks)) = user_name s"
  by (simp_all add: summarize_body_def Let_def split: sum.splits option.splits)

lemma summarize_Inl_body:
  "fst (summarize_body ms s hist toks) = Inl e \<Longrightarrow>
   summarize ms encode conn s hist toks = (Inl e, snd (summarize_body ms s hist toks))"
  by (simp add: summarize_def Let_def)

lemma summarize_Inl_call:
  "fst (summarize_body ms s hist toks) = Inr b \<Longrightarrow> makeApiCall ms encode conn b = Inl e \<Longrightarrow>
   summarize ms encode conn s hist toks = (Inl e, snd (summarize_body ms s hist toks))"
  by (simp add: summarize_def Let_def)

lemma summarize_Inr:
  "fst (summarize_body ms s hist toks) = Inr b \<Longrightarrow> makeApiCall ms encode conn b = Inr sm \<Longrightarrow>
   summarize ms encode conn s hist toks =
     (Inr (strip_label (assistant_name s) sm),
      (snd (summarize_body ms s hist toks))
        \<lparr>summary := strip_label (assistant_name s) sm,
         history := mark_summarized (history s) (summarize_refs s hist)\<rparr>)"
  by (simp add: summarize_def Let_def summarize_body_frame)

text \<open>
  C8. When \<open>summarize\<close> fails, and in particular when the backend answers no request
  with a response, the promise is rejected, the running summary is the string it was,
  the history is the list of records it was, every \<open>summarized\<close> flag included, and the
  names of the participants are what they were.
\<close>

theorem summarize_failure_keeps_state:
  assumes "fst (summarize ms encode conn s hist toks) = Inl e
           \<or> (\<forall>meth b r. conn meth b \<noteq> ApiResponse r)"
  shows "summary (snd (summarize ms encode conn s hist toks)) = summary s
       \<and> map summarized (history (snd (summarize ms encode conn s hist toks)))
           = map summarized (history s)
       \<and> history (snd (summarize ms encode conn s hist toks)) = history s
       \<and> user_name (snd (summarize ms encode conn s hist toks)) = user_name s
       \<and> assistant_name (snd (summarize ms encode conn s hist toks)) = assistant_name s
       \<and> (\<exists>e'. fst (summarize ms encode conn s hist toks) = Inl e')"
proof (cases "fst (summarize_body ms s hist toks)")
  case (Inl e1)
  then show ?thesis
    by (simp add: summarize_Inl_body summarize_body_frame)
next
  case (Inr b)
  show ?thesis
  proof (cases "makeApiCall ms encode conn b")
    case (Inl e2)
    with Inr show ?thesis
      by (simp add: summarize_Inl_call summarize_body_frame)
  next
    case call: (Inr sm)
    then have "\<exists>meth b' r. conn meth b' = ApiResponse r"
      by (rule makeApiCall_response)
    moreover have "fst (summarize ms encode conn s hist toks) \<noteq> Inl e"
      using Inr call by (simp add: summarize_Inr)
    ultimately show ?thesis
      using assms by blast
  qed
qed

theorem summarize_failure_keeps_state_witness:
  "fst (summarize models char_encode rejecting_conn session_after_two None None) = Inl BackendError
   \<and> summary (snd (summarize models char_encode rejecting_conn session_after_two None None)) = []
   \<and> map summarized (history (snd (summarize models char_encode rejecting_conn
                                      session_after_two None None))) = [False, False]"
proof -
  have rejects: "\<forall>meth b r. rejecting_conn meth b \<noteq> ApiResponse r"
    by (simp add: rejecting_conn_def)
  have failed: "fst (summarize models char_encode rejecting_conn session_after_two None None)
                  = Inl BackendError"
    by code_simp
  show ?thesis
    using summarize_failure_keeps_state [where conn = rejecting_conn, OF disjI2, OF rejects,
        of models char_encode session_after_two None None] failed
    by (simp add: session_after_two_def initial_session_def fresh_turns_def)
qed

subsection \<open>A successful summarization\<close>

lemma mark_summarized_keeps:
  "i < length h \<Longrightarrow> summarized (h ! i) \<Longrightarrow> summarized (mark_summarized h refs ! i)"
  unfolding mark_summarized_def
proof (induction refs arbitrary: h)
  case Nil
  then show ?case by simp
next
  case (Cons r refs)
  have "summarized (h[r := (h ! r)\<lparr>summarized := True\<rparr>] ! i)"
    using Cons.prems by (cases "i = r") simp_all
  with Cons show ?case by simp
qed

lemma mark_summarized_marks:
  "i \<in> set refs \<Longrightarrow> i < length h \<Longrightarrow> summarized (mark_summarized h refs ! i)"
proof (induction refs arbitrary: h)
  case Nil
  then show ?case by simp
next
  case (Cons r refs)
  let ?h = "h[r := (h ! r)\<lparr>summarized := True\<rparr>]"
  have step: "mark_summarized h (r # refs) = mark_summarized ?h refs"
    by (simp add: mark_summarized_def)
  show ?case
  proof (cases "i = r")
    case True
    then have "summarized (?h ! i)" using Cons.prems by simp
    then show ?thesis
      using mark_summarized_keeps [of i ?h refs] Cons.prems step by simp
  next
    case False
    then show ?thesis using Cons step by simp
  qed
qed

lemma getUnsummorizedHistory_set:
  "set (getUnsummorizedHistory h) = {i. i < length h \<and> \<not> summarized (h ! i)}"
  by (auto simp: getUnsummorizedHistory_def)

lemma strip_label_empty:
  "strip_label nm sm = [] \<longleftrightarrow>
     sm = [] \<or> (take (length nm) sm = nm \<and> length sm \<le> length nm + 1)"
  by (auto simp: strip_label_def)

text \<open>
  What a successful \<open>summarize\<close> does to the session, for references to records of the
  history: every referenced record has \<open>summarized\<close> true afterwards, the unsummarized
  view holds none of them, and the running summary is the value the promise resolves
  to, which is the output of \<open>#makeApiCall\<close> without a leading assistant name and the
  character after it.
\<close>

lemma summarize_success_marks_turns:
  assumes ok: "fst (summarize ms encode conn s hist toks) = Inr out"
    and refs: "\<forall>i \<in> set (summarize_refs s hist). i < length (history s)"
  shows "(\<forall>i \<in> set (summarize_refs s hist).
            summarized (history (snd (summarize ms encode conn s hist toks)) ! i))
       \<and> set (getUnsummorizedHistory (history (snd (summarize ms encode conn s hist toks))))
           \<inter> set (summarize_refs s hist) = {}
       \<and> summary (snd (summarize ms encode conn s hist toks)) = out
       \<and> (\<exists>b sm. fst (summarize_body ms s hist toks) = Inr b
              \<and> makeApiCall ms encode conn b = Inr sm \<and> sm \<noteq> []
              \<and> out = strip_label (assistant_name s) sm)"
proof -
  obtain b where b: "fst (summarize_body ms s hist toks) = Inr b"
    using ok by (cases "fst (summarize_body ms s hist toks)") (simp_all add: summarize_Inl_body)
  obtain sm where sm: "makeApiCall ms encode conn b = Inr sm"
    using ok b by (cases "makeApiCall ms encode conn b") (simp_all add: summarize_Inl_call)
  note eq = summarize_Inr [OF b sm]
  have out: "out = strip_label (assistant_name s) sm"
    using ok by (simp add: eq)
  have hist': "history (snd (summarize ms encode conn s hist toks))
               = mark_summarized (history s) (summarize_refs s hist)"
    by (simp add: eq)
  have summ: "summary (snd (summarize ms encode conn s hist toks)) = out"
    by (simp add: eq out)
  have marked: "\<forall>i \<in> set (summarize_refs s hist).
      summarized (mark_summarized (history s) (summarize_refs s hist) ! i)"
    using refs mark_summarized_marks by blast
  have nonempty: "sm \<noteq> []"
    using sm by (rule makeApiCall_nonempty)
  have view: "set (getUnsummorizedHistory (mark_summarized (history s) (summarize_refs s hist)))
           \<inter> set (summarize_refs s hist) = {}"
    using marked by (auto simp: getUnsummorizedHistory_set)
  show ?thesis
    unfolding hist' using marked view summ nonempty out b sm by blast
qed

text \<open>
  C9. With two unsummarized turns in the history and a backend that answers \<open>AI:\<close> (and
  the finish reason \<open>stop\<close>), \<open>summarize()\<close> succeeds: the text passes the test for
  emptiness in \<open>#makeApiCall\<close>, the callback removes the label, and the running summary
  that is stored is the empty string, while both turns are marked as summarized. The
  unsummarized view is empty then, and the next prompt of \<open>chat\<close> holds the default
  system message and the new input only.
\<close>

theorem summarize_label_only_empties_summary:
  "fst (summarize models char_encode label_conn session_after_two None None) = Inr []
   \<and> summary (snd (summarize models char_encode label_conn session_after_two None None)) = []
   \<and> map summarized
        (history (snd (summarize models char_encode label_conn session_after_two None None)))
       = [True, True]
   \<and> getUnsummorizedHistory
        (history (snd (summarize models char_encode label_conn session_after_two None None)))
       = []
   \<and> chat_messages (snd (summarize models char_encode label_conn session_after_two None None))
        ''now''
       = [ChatMessage System ''You are a helpful assistant.'', ChatMessage User ''now'']"
  by code_simp

subsection \<open>An empty response text\<close>

text \<open>
  C10. When the request of \<open>query\<close> or \<open>chat\<close> reaches the backend and the text extracted
  from the response is empty, \<open>#makeApiCall\<close>, and with it \<open>query\<close> and \<open>chat\<close>, rejects
  with the error "Problems parsing the response from openai"; and, whatever the backend
  does, neither \<open>query\<close> nor \<open>chat\<close> resolves to the empty string.
\<close>

theorem empty_response_is_parse_error:
  "(adjustMaxExpectedResponseTokens ms encode b = Inr b'
      \<and> body_entry ms b = Some model
      \<and> api_method model = Some meth
      \<and> conn meth b' = ApiResponse r
      \<and> adapter model = Some ad
      \<and> extractResponse ad r = Some []
     \<longrightarrow> makeApiCall ms encode conn b = Inl ResponseParseError
         \<and> (fst (query_body ms c inp tc) = Inr b
              \<longrightarrow> fst (query ms encode conn c inp tc) = Inl ResponseParseError)
         \<and> (fst (chat_body ms s inp tc) = Inr b
              \<longrightarrow> fst (chat ms encode conn s inp tc) = Inl ResponseParseError))
   \<and> fst (query ms encode conn c inp tc) \<noteq> Inr []
   \<and> fst (chat ms encode conn s inp tc) \<noteq> Inr []"
proof -
  have call: "makeApiCall ms encode conn b = Inl ResponseParseError"
    if "adjustMaxExpectedResponseTokens ms encode b = Inr b'"
      and "body_entry ms b = Some model"
      and "api_method model = Some meth"
      and "conn meth b' = ApiResponse r"
      and "adapter model = Some ad"
      and "extractResponse ad r = Some []"
    using that by (simp add: makeApiCall_def parse_response_def)
  have q: "fst (query ms encode conn c inp tc) \<noteq> Inr []"
    using makeApiCall_nonempty [of ms encode conn _ "[]"]
    by (auto simp: query_def split: sum.splits)
  have ch: "fst (chat ms encode conn s inp tc) \<noteq> Inr []"
    by (rule chat_never_resolves)
  show ?thesis
    using call q ch by (simp add: query_def chat_def Let_def)
qed

theorem empty_response_is_parse_error_witness:
  "fst (query models char_encode blank_conn initial_conf (JStr ''hi'') None)
     = Inl ResponseParseError
   \<and> fst (chat models char_encode blank_conn initial_session (JStr ''hi'') None)
     = Inl ResponseParseError"
proof -
  let ?bq = "projr (fst (query_body models initial_conf (JStr ''hi'') None))"
  let ?mq = "the (map_of models ''text-davinci-003'')"
  let ?bc = "projr (fst (chat_body models initial_session (JStr ''hi'') None))"
  let ?mc = "the (map_of models ''gpt-3.5-turbo'')"
  let ?r = "[\<lparr>message_content = Some '' '', choice_text = Some '' '',
              finish_reason = Some ''stop''\<rparr>]"
  have q1: "adjustMaxExpectedResponseTokens models char_encode ?bq = Inr ?bq" by code_simp
  have q2: "body_entry models ?bq = Some ?mq" by code_simp
  have q3: "api_method ?mq = Some ''createCompletion''" by code_simp
  have q4: "blank_conn ''createCompletion'' ?bq = ApiResponse ?r" by (simp add: blank_conn_def)
  have q5: "adapter ?mq = Some CompletionAdapter" by code_simp
  have q6: "extractResponse CompletionAdapter ?r = Some []" by code_simp
  have q7: "fst (query_body models initial_conf (JStr ''hi'') None) = Inr ?bq" by code_simp
  have c1: "adjustMaxExpectedResponseTokens models char_encode ?bc = Inr ?bc" by code_simp
  have c2: "body_entry models ?bc = Some ?mc" by code_simp
  have c3: "api_method ?mc = Some ''createChatCompletion''" by code_simp
  have c4: "blank_conn ''createChatCompletion'' ?bc = ApiResponse ?r" by (simp add: blank_conn_def)
  have c5: "adapter ?mc = Some ChatAdapter" by code_simp
  have c6: "extractResponse ChatAdapter ?r = Some []" by code_simp
  have c7: "fst (chat_body models initial_session (JStr ''hi'') None) = Inr ?bc" by code_simp
  have query_rejects:
    "fst (query models char_encode blank_conn initial_conf (JStr ''hi'') None)
       = Inl ResponseParseError"
    using empty_response_is_parse_error [where ms = models and encode = char_encode
        and conn = blank_conn and b = ?bq and b' = ?bq and model = ?mq
        and meth = "''createCompletion''" and r = ?r and ad = CompletionAdapter
        and c = initial_conf and inp = "JStr ''hi''" and tc = None]
      q1 q2 q3 q4 q5 q6 q7
    by blast
  have chat_rejects:
    "fst (chat models char_encode blank_conn initial_session (JStr ''hi'') None)
       = Inl ResponseParseError"
    using empty_response_is_parse_error [where ms = models and encode = char_encode
        and conn = blank_conn and b = ?bc and b' = ?bc and model = ?mc
        and meth = "''createChatCompletion''" and r = ?r and ad = ChatAdapter
        and s = initial_session and inp = "JStr ''hi''" and tc = None]
      c1 c2 c3 c4 c5 c6 c7
    by blast
  show ?thesis
    using query_rejects chat_rejects by simp
qed

end
